theory Spec2Isabelle
  imports Complex_Main
begin

section \<open>Numeric utilities of the imitation package\<close>

text \<open>
  The development embeds \<^verbatim>\<open>imitation/util/util.py\<close> and
  \<^verbatim>\<open>imitation/util/networks.py\<close>. Arrays and tensors of floating-point numbers are
  lists of reals (a matrix is the list of its rows), so every statement below is about the
  arithmetic the program performs, carried out exactly. Python integers are \<open>int\<close> and
  sizes are natural numbers. The sample counter of the normalisation layers is a 32-bit
  signed integer, as in the source: its additions wrap around.
\<close>

subsection \<open>Errors\<close>

datatype error = ValueError | AssertionError | IndexError | RuntimeError

subsection \<open>\<^verbatim>\<open>oric\<close>: optimal rounding under integer constraints\<close>

text \<open>
  \<^verbatim>\<open>np.round\<close> rounds to the nearest integer and a tie to the even neighbour.
\<close>

definition np_round :: "real \<Rightarrow> int" where
  "np_round v =
     (let f = \<lfloor>v\<rfloor>; d = v - of_int f
      in if d < 1 / 2 then f
         else if 1 / 2 < d then f + 1
         else if even f then f else f + 1)"



text \<open>The Python slice \<^verbatim>\<open>xs[:k]\<close>; a negative \<open>k\<close> counts from the end.\<close>

definition slice_to :: "int \<Rightarrow> 'a list \<Rightarrow> 'a list" where
  "slice_to k xs =
     (if 0 \<le> k then take (nat k) xs else take (length xs - nat (- k)) xs)"

text \<open>
  \<^verbatim>\<open>rounded[sel] += 1\<close> with an index array: every selected position is incremented
  once.
\<close>

definition incr_at :: "nat list \<Rightarrow> real list \<Rightarrow> real list" where
  "incr_at sel r = map (\<lambda>i. if i \<in> set sel then r ! i + 1 else r ! i) [0..<length r]"

definition shortfall_of :: "real list \<Rightarrow> real list" where
  "shortfall_of x = map (\<lambda>v. v - of_int \<lfloor>v\<rfloor>) x"

text \<open>
  The body of \<^verbatim>\<open>oric\<close>, with the result of the \<^verbatim>\<open>argsort\<close> call given as
  \<open>indices\<close>.
\<close>

definition oric_with :: "nat list \<Rightarrow> real list \<Rightarrow> int list" where
  "oric_with indices x =
     (let rounded = map (\<lambda>v. of_int \<lfloor>v\<rfloor>) x;
          shortfall = map2 (-) x rounded;
          total_shortfall = np_round (sum_list shortfall);
          rounded' = incr_at (slice_to total_shortfall indices) rounded
      in map floor rounded')"



subsection \<open>Tensors\<close>

text \<open>
  A two-dimensional tensor of shape \<open>(B, F)\<close> is the list of its \<open>B\<close> rows together with
  the number \<open>F\<close> of features, which a tensor keeps also when it has no row. The reductions
  along dimension 0 are those of the tensor library: sum, mean and population variance
  (\<^verbatim>\<open>unbiased=False\<close>) of every column. On a tensor without rows the library's mean and
  variance are NaN; nothing below is stated for that case.
\<close>

record tensor2 =
  nfeat :: nat
  rows :: "real list list"

definition wf_tensor2 :: "tensor2 \<Rightarrow> bool" where
  "wf_tensor2 t \<longleftrightarrow> list_all (\<lambda>r. length r = nfeat t) (rows t)"

definition column :: "nat \<Rightarrow> tensor2 \<Rightarrow> real list" where
  "column j t = map (\<lambda>r. r ! j) (rows t)"

definition mean :: "real list \<Rightarrow> real" where
  "mean xs = sum_list xs / real (length xs)"

definition pvariance :: "real list \<Rightarrow> real" where
  "pvariance xs =
     (let mu = mean xs in sum_list (map (\<lambda>v. (v - mu)\<^sup>2) xs) / real (length xs))"

definition sum_dim0 :: "tensor2 \<Rightarrow> real list" where
  "sum_dim0 t = map (\<lambda>j. sum_list (column j t)) [0..<nfeat t]"

definition th_mean0 :: "tensor2 \<Rightarrow> real list" where
  "th_mean0 t = map (\<lambda>j. mean (column j t)) [0..<nfeat t]"

definition th_var0 :: "tensor2 \<Rightarrow> real list" where
  "th_var0 t = map (\<lambda>j. pvariance (column j t)) [0..<nfeat t]"

text \<open>\<^verbatim>\<open>weights * batch\<close> for a column of weights of shape \<open>(B, 1)\<close>.\<close>

definition scale_rows :: "real list \<Rightarrow> tensor2 \<Rightarrow> tensor2" where
  "scale_rows ws t = t\<lparr>rows := map2 (\<lambda>w r. map (\<lambda>v. w * v) r) ws (rows t)\<rparr>"

text \<open>Elementwise product of two tensors of the same shape.\<close>

definition mul_elem :: "tensor2 \<Rightarrow> tensor2 \<Rightarrow> tensor2" where
  "mul_elem s t = t\<lparr>rows := map2 (map2 (*)) (rows s) (rows t)\<rparr>"

text \<open>\<^verbatim>\<open>(batch - v) ** 2\<close> for a vector \<open>v\<close> of shape \<open>(F,)\<close>.\<close>

definition sub_row_sq :: "tensor2 \<Rightarrow> real list \<Rightarrow> tensor2" where
  "sub_row_sq t v = t\<lparr>rows := map (\<lambda>r. map2 (\<lambda>x m. (x - m)\<^sup>2) r v) (rows t)\<rparr>"

subsection \<open>Normalisation layers\<close>

text \<open>
  The buffer \<^verbatim>\<open>count\<close> is registered with \<^verbatim>\<open>dtype=th.int\<close>: a signed integer of 32
  bits, held here as the integer it denotes, between \<open>-2\<^sup>3\<^sup>1\<close> and \<open>2\<^sup>3\<^sup>1 - 1\<close>. An
  addition on it keeps the low 32 bits of the sum in two's complement.
\<close>

definition int32 :: "int \<Rightarrow> int" where
  "int32 v = (v + 2 ^ 31) mod 2 ^ 32 - 2 ^ 31"

text \<open>
  The buffers of \<^verbatim>\<open>BaseNorm\<close>; \<open>training\<close> is the mode flag of the module.
  \<^verbatim>\<open>EMANorm\<close> adds its two parameters.
\<close>

record BaseNorm =
  eps :: real
  training :: bool
  running_mean :: "real list"
  running_var :: "real list"
  count :: int

record EMANorm = BaseNorm +
  decay :: real
  decay_within_batch :: bool

definition reset_running_stats :: "'a BaseNorm_scheme \<Rightarrow> 'a BaseNorm_scheme" where
  "reset_running_stats s =
     s\<lparr>running_mean := map (\<lambda>_. 0) (running_mean s),
       running_var := map (\<lambda>_. 1) (running_var s),
       count := 0\<rparr>"

text \<open>
  \<^verbatim>\<open>BaseNorm.__init__\<close>: the buffers are allocated with \<open>num_features\<close> entries and
  then reset; a module starts in training mode.
\<close>

definition BaseNorm_init :: "nat \<Rightarrow> real \<Rightarrow> BaseNorm" where
  "BaseNorm_init num_features e =
     reset_running_stats
       \<lparr>eps = e, training = True,
        running_mean = replicate num_features 0,
        running_var = replicate num_features 0,
        count = 0\<rparr>"

text \<open>
  \<^verbatim>\<open>RunningNorm.update_stats\<close>, one in-place statement per binding. The batch size is
  a Python integer; \<^verbatim>\<open>tot_count\<close> and the new \<^verbatim>\<open>count\<close> are 32-bit sums.
\<close>

definition RunningNorm_update_stats :: "BaseNorm \<Rightarrow> tensor2 \<Rightarrow> BaseNorm" where
  "RunningNorm_update_stats s batch =
     (let batch_mean = th_mean0 batch;
          batch_var = th_var0 batch;
          batch_count = int (length (rows batch));
          delta = map2 (-) batch_mean (running_mean s);
          tot_count = int32 (count s + batch_count);
          rm = map2 (+) (running_mean s)
                 (map (\<lambda>d. d * of_int batch_count / of_int tot_count) delta);
          rv1 = map (\<lambda>v. v * of_int (count s)) (running_var s);
          rv2 = map2 (+) rv1 (map (\<lambda>v. v * of_int batch_count) batch_var);
          rv3 = map2 (+) rv2
                  (map (\<lambda>d. d\<^sup>2 * of_int (count s) * of_int batch_count / of_int tot_count)
                     delta);
          rv4 = map (\<lambda>v. v / of_int tot_count) rv3
      in s\<lparr>running_mean := rm, running_var := rv4, count := int32 (count s + batch_count)\<rparr>)"

text \<open>
  \<^verbatim>\<open>EMANorm.__init__\<close>: the base class is initialised first, then the decay is checked.
\<close>

definition EMANorm_init :: "nat \<Rightarrow> real \<Rightarrow> bool \<Rightarrow> real \<Rightarrow> error + EMANorm" where
  "EMANorm_init num_features d dwb e =
     (let base = BaseNorm_init num_features e
      in if \<not> (0 < d \<and> d < 1) then Inl ValueError
         else Inr \<lparr>eps = eps base, training = training base,
                   running_mean = running_mean base, running_var = running_var base,
                   count = count base, decay = d, decay_within_batch = dwb\<rparr>)"

text \<open>
  A batch handed to \<^verbatim>\<open>EMANorm.update_stats\<close> is one- or two-dimensional; a
  one-dimensional batch of \<open>B\<close> numbers is reshaped to \<open>(B, 1)\<close>.
\<close>

datatype batch = Batch1 "real list" | Batch2 tensor2

definition as_tensor2 :: "batch \<Rightarrow> tensor2" where
  "as_tensor2 b =
     (case b of
        Batch1 xs \<Rightarrow> \<lparr>nfeat = 1, rows = map (\<lambda>v. [v]) xs\<rparr>
      | Batch2 t \<Rightarrow> t)"

text \<open>
  \<^verbatim>\<open>th.vander(th.tensor([decay]), N=b_size).T\<close>: the column
  \<open>decay^(N-1), ..., decay, 1\<close>.
\<close>

definition vander_col :: "real \<Rightarrow> nat \<Rightarrow> real list" where
  "vander_col d n = map (\<lambda>i. d ^ (n - 1 - i)) [0..<n]"

text \<open>
  \<^verbatim>\<open>EMANorm.update_stats\<close>. With decay inside the batch and statistics already
  present, \<^verbatim>\<open>weights[0]\<close> fails on a batch without rows.
\<close>

definition EMANorm_update_stats :: "EMANorm \<Rightarrow> batch \<Rightarrow> error + EMANorm" where
  "EMANorm_update_stats s batch0 =
     (let batch = as_tensor2 batch0;
          b_size = length (rows batch);
          weights = (if decay_within_batch s then vander_col (decay s) b_size
                     else replicate b_size (1 / real b_size));
          alpha = 1 - decay s
      in if count s = 0 then
           (let weights1 = (if decay_within_batch s
                            then take 1 weights @ map (\<lambda>w. w * alpha) (drop 1 weights)
                            else weights);
                rm = sum_dim0 (scale_rows weights1 batch);
                rv = (if 1 < b_size
                      then sum_dim0 (scale_rows weights1 (sub_row_sq batch rm))
                      else map (\<lambda>_. 0) rm)
            in Inr (s\<lparr>running_mean := rm, running_var := rv,
                     count := int32 (count s + int b_size)\<rparr>))
         else if decay_within_batch s \<and> b_size = 0 then Inl IndexError
         else
           (let running_weight = (if decay_within_batch s then decay s * weights ! 0
                                  else decay s);
                weights1 = map (\<lambda>w. w * alpha) weights;
                rv1 = map (\<lambda>v. running_weight * v)
                        (map2 (\<lambda>v m. v + m\<^sup>2) (running_var s) (running_mean s));
                weighted_batch = scale_rows weights1 batch;
                weighted_batch_mean = sum_dim0 weighted_batch;
                rm = map2 (+) (map (\<lambda>m. m * running_weight) (running_mean s))
                       weighted_batch_mean;
                rv2 = map2 (+) rv1 (sum_dim0 (mul_elem weighted_batch batch));
                rv3 = map2 (\<lambda>v m. v - m\<^sup>2) rv2 rm
            in Inr (s\<lparr>running_mean := rm, running_var := rv3,
                     count := int32 (count s + int b_size)\<rparr>)))"

text \<open>
  \<^verbatim>\<open>BaseNorm.forward\<close> of an \<^verbatim>\<open>EMANorm\<close> on an input of shape \<open>(B, F)\<close>: in
  training mode the statistics are updated first; the result is the new state and the
  normalised rows.
\<close>

definition apply_norm :: "'a BaseNorm_scheme \<Rightarrow> tensor2 \<Rightarrow> real list list" where
  "apply_norm s x =
     map (\<lambda>r. map2 (/) (map2 (-) r (running_mean s))
                (map (\<lambda>v. sqrt (v + eps s)) (running_var s)))
         (rows x)"

definition EMANorm_forward :: "EMANorm \<Rightarrow> tensor2 \<Rightarrow> error + EMANorm \<times> real list list" where
  "EMANorm_forward s x =
     (case (if training s then EMANorm_update_stats s (Batch2 x) else Inr s) of
        Inl e \<Rightarrow> Inl e
      | Inr s' \<Rightarrow> Inr (s', apply_norm s' x))"

text \<open>
  What the normalisation of \<open>x\<close> is when every variance estimate is zero: each entry is
  centred on the running mean and multiplied by \<open>1 / sqrt eps\<close>.
\<close>

definition rescaled_by_inv_sqrt_eps :: "'a BaseNorm_scheme \<Rightarrow> tensor2 \<Rightarrow> real list list" where
  "rescaled_by_inv_sqrt_eps s x =
     map (\<lambda>r. map2 (\<lambda>v m. (v - m) * (1 / sqrt (eps s))) r (running_mean s)) (rows x)"

text \<open>
  The state holds the statistics of the rows \<open>rs\<close> seen so far: mean and population
  variance of every column, and the number of rows.
\<close>

definition stats_of :: "BaseNorm \<Rightarrow> nat \<Rightarrow> real list list \<Rightarrow> bool" where
  "stats_of s F rs \<longleftrightarrow>
     running_mean s = th_mean0 \<lparr>nfeat = F, rows = rs\<rparr> \<and>
     running_var s = th_var0 \<lparr>nfeat = F, rows = rs\<rparr> \<and>
     count s = int (length rs)"

subsection \<open>\<^verbatim>\<open>make_seeds\<close>\<close>

text \<open>
  A \<^verbatim>\<open>np.random.Generator\<close> is the stream of raw draws of its bit generator and the
  number of draws consumed so far. \<^verbatim>\<open>rng.integers(low, high, (n,))\<close> returns \<open>n\<close> integers
  \<open>v\<close> with \<open>low \<le> v < high\<close> and advances the generator; it raises \<^verbatim>\<open>ValueError\<close> for a
  negative \<open>n\<close> and for an empty range. How the library maps a raw draw into the range is
  not part of its contract; the remainder is used here.
\<close>

record Generator =
  raw :: "nat \<Rightarrow> nat"
  consumed :: nat

definition integers :: "Generator \<Rightarrow> int \<Rightarrow> int \<Rightarrow> int \<Rightarrow> error + int list \<times> Generator" where
  "integers rng low high n =
     (if n < 0 \<or> high \<le> low then Inl ValueError
      else Inr (map (\<lambda>i. low + int (raw rng (consumed rng + i)) mod (high - low)) [0..<nat n],
                rng\<lparr>consumed := consumed rng + nat n\<rparr>))"

text \<open>The result is one integer when \<open>n\<close> is omitted and a list otherwise.\<close>

datatype seeds = Seed int | Seeds "int list"

definition make_seeds :: "Generator \<Rightarrow> int option \<Rightarrow> error + seeds \<times> Generator" where
  "make_seeds rng n =
     (case integers rng 0 (push_bit 31 1 - 1) (case n of Some m \<Rightarrow> m | None \<Rightarrow> 1) of
        Inl e \<Rightarrow> Inl e
      | Inr (seeds_arr, rng') \<Rightarrow>
          (case n of
             None \<Rightarrow> Inr (Seed (seeds_arr ! 0), rng')
           | Some m \<Rightarrow> Inr (Seeds seeds_arr, rng')))"

subsection \<open>\<^verbatim>\<open>tensor_iter_norm\<close>\<close>

text \<open>
  An entry of a floating-point tensor is a number or an infinity. The p-norm of the tensor
  library works on magnitudes: absolute values, which are non-negative numbers or
  \<open>+\<infinity>\<close>. Powers of magnitudes follow the floating-point conventions, carried out
  exactly on finite positive values: a zero raised to a negative power is \<open>+\<infinity>\<close>, and
  \<open>+\<infinity>\<close> raised to a negative power is zero. Sums of magnitudes never meet
  \<open>\<infinity> - \<infinity>\<close>, so no NaN arises from entries that are not NaN.
\<close>

datatype scalar = Num real | PosInf | NegInf

datatype mag = Mag real | MagInf

definition sabs :: "scalar \<Rightarrow> mag" where
  "sabs v = (case v of Num a \<Rightarrow> Mag \<bar>a\<bar> | PosInf \<Rightarrow> MagInf | NegInf \<Rightarrow> MagInf)"

definition scalar_of :: "mag \<Rightarrow> scalar" where
  "scalar_of m = (case m of Mag a \<Rightarrow> Num a | MagInf \<Rightarrow> PosInf)"

fun madd :: "mag \<Rightarrow> mag \<Rightarrow> mag" where
  "madd (Mag a) (Mag b) = Mag (a + b)"
| "madd _ _ = MagInf"

definition mpow :: "mag \<Rightarrow> real \<Rightarrow> mag" where
  "mpow m p =
     (if p = 0 then Mag 1
      else case m of
             Mag a \<Rightarrow> if a = 0 then (if p < 0 then MagInf else Mag 0) else Mag (a powr p)
           | MagInf \<Rightarrow> if p < 0 then Mag 0 else MagInf)"

definition msum :: "mag list \<Rightarrow> mag" where
  "msum ms = foldr madd ms (Mag 0)"

text \<open>
  \<^verbatim>\<open>th.norm(t, p=p)\<close> of a flattened tensor, for a finite order \<open>p\<close>: the number of
  non-zero entries when \<open>p = 0\<close>, and \<open>(\<Sum> |v|\<^sup>p)\<^sup>1\<^sup>/\<^sup>p\<close> otherwise.
\<close>

definition th_norm :: "scalar list \<Rightarrow> real \<Rightarrow> mag" where
  "th_norm t p =
     (if p = 0 then Mag (real (length (filter (\<lambda>v. v \<noteq> Num 0) t)))
      else mpow (msum (map (\<lambda>v. mpow (sabs v) p) t)) (1 / p))"

text \<open>The chunks are given flattened; \<^verbatim>\<open>th.as_tensor\<close> collects the chunk norms.\<close>

definition tensor_iter_norm :: "scalar list list \<Rightarrow> real \<Rightarrow> error + mag" where
  "tensor_iter_norm tensor_iter ord =
     (if ord = 0 then Inl ValueError
      else let norms = map (\<lambda>tensor. th_norm tensor ord) tensor_iter;
               norm_tensor = map scalar_of norms
           in Inr (th_norm norm_tensor ord))"

text \<open>A magnitude is well formed when it is not negative.\<close>

definition mag_ok :: "mag \<Rightarrow> bool" where
  "mag_ok m = (case m of Mag a \<Rightarrow> 0 \<le> a | MagInf \<Rightarrow> True)"

subsection \<open>\<^verbatim>\<open>compute_state_entropy\<close>\<close>

text \<open>
  Observations are rows of a two-dimensional tensor, the feature dimensions flattened into
  one; the norm is taken over all of them in the source as well. The first assertion
  compares the feature shapes. \<^verbatim>\<open>th.linalg.vector_norm\<close> with \<^verbatim>\<open>ord=2\<close> is the square root of
  the sum of the squared absolute values.
\<close>

definition vector_norm2 :: "real list \<Rightarrow> real" where
  "vector_norm2 v = sqrt (sum_list (map (\<lambda>a. \<bar>a\<bar>\<^sup>2) v))"

text \<open>
  The broadcast difference \<^verbatim>\<open>obs[:, None] - all_obs_batch[None, :]\<close> followed by the norm
  over the feature dimensions: entry \<open>(i, j)\<close> is the distance from query \<open>i\<close> to reference
  row \<open>j\<close> of the chunk. Its shape is that of the second assertion of the source, which
  therefore never fails.
\<close>

definition pairwise_distances :: "real list list \<Rightarrow> real list list \<Rightarrow> real list list" where
  "pairwise_distances qs rs = map (\<lambda>q. map (\<lambda>r. vector_norm2 (map2 (-) q r)) rs) qs"

text \<open>\<^verbatim>\<open>th.cat(ts, dim=1)\<close> of matrices with \<open>n\<close> rows each.\<close>

definition cat_dim1 :: "nat \<Rightarrow> real list list list \<Rightarrow> real list list" where
  "cat_dim1 n ts = map (\<lambda>i. concat (map (\<lambda>t. t ! i) ts)) [0..<n]"

text \<open>
  \<^verbatim>\<open>th.kthvalue(t, k, dim=1).values\<close>: the \<open>k\<close>-th smallest entry of every row, counting
  from 1; the library raises \<^verbatim>\<open>RuntimeError\<close> when \<open>k\<close> is not between 1 and the width.
\<close>

definition kthvalue :: "nat \<Rightarrow> real list list \<Rightarrow> int \<Rightarrow> error + real list" where
  "kthvalue width t k =
     (if 1 \<le> k \<and> k \<le> int width then Inr (map (\<lambda>row. sort row ! nat (k - 1)) t)
      else Inl RuntimeError)"

definition compute_state_entropy :: "tensor2 \<Rightarrow> tensor2 \<Rightarrow> int \<Rightarrow> error + real list" where
  "compute_state_entropy obs all_obs k =
     (if nfeat obs \<noteq> nfeat all_obs then Inl AssertionError
      else let batch_size = 500;
               dists = map (\<lambda>idx.
                   let start = idx * batch_size;
                       all_obs_batch = take batch_size (drop start (rows all_obs))
                   in pairwise_distances (rows obs) all_obs_batch)
                 [0..<length (rows all_obs) div batch_size + 1];
               all_dists = cat_dim1 (length (rows obs)) dists
           in kthvalue (length (rows all_obs)) all_dists (k + 1))"

text \<open>
  The distance from \<open>q\<close> to its \<open>k\<close>-th nearest neighbour among the rows \<open>rs\<close>, counting from
  1: the \<open>k\<close>-th smallest of the distances from \<open>q\<close> to the rows, computed from all of them
  at once.
\<close>

definition kth_nearest_distance :: "nat \<Rightarrow> real list \<Rightarrow> real list list \<Rightarrow> real" where
  "kth_nearest_distance k q rs = sort (map (\<lambda>r. vector_norm2 (map2 (-) q r)) rs) ! (k - 1)"

text \<open>
  The combination formula of Chan et al. as the specification words it: from the prior
  aggregate \<open>(mean\<^sub>0, var\<^sub>0, n\<^sub>0)\<close> held in the state and the moments
  \<open>(mean\<^sub>1, var\<^sub>1, n\<^sub>1)\<close> of the batch, with \<open>delta = mean\<^sub>1 - mean\<^sub>0\<close> and \<open>n = n\<^sub>0 + n\<^sub>1\<close> (a
  sum of integers, which does not wrap), the new mean is \<open>mean\<^sub>0 + delta * n\<^sub>1 / n\<close>, the new
  variance is \<open>(var\<^sub>0 * n\<^sub>0 + var\<^sub>1 * n\<^sub>1 + delta\<^sup>2 * n\<^sub>0 * n\<^sub>1 / n) / n\<close> and the new count is \<open>n\<close>.
\<close>

definition chan_combine :: "BaseNorm \<Rightarrow> tensor2 \<Rightarrow> BaseNorm" where
  "chan_combine s b =
     (let n0 = count s; n1 = int (length (rows b)); n = n0 + n1;
          delta = (\<lambda>j. th_mean0 b ! j - running_mean s ! j)
      in s\<lparr>running_mean :=
             map (\<lambda>j. running_mean s ! j + delta j * of_int n1 / of_int n) [0..<nfeat b],
           running_var :=
             map (\<lambda>j. (running_var s ! j * of_int n0 + th_var0 b ! j * of_int n1
                       + (delta j)\<^sup>2 * of_int n0 * of_int n1 / of_int n) / of_int n)
               [0..<nfeat b],
           count := n\<rparr>)"

section \<open>Properties\<close>

subsection \<open>Rounding facts\<close>

lemma np_round_of_int: "np_round (of_int z) = z"
  by (simp add: np_round_def)

lemma shortfall_eq: "map2 (-) x (map (\<lambda>v. of_int \<lfloor>v\<rfloor>) x) = shortfall_of x"
  by (induction x) (simp_all add: shortfall_of_def)

lemma shortfall_of_ints: "shortfall_of (map of_int zs) = replicate (length zs) 0"
  by (induction zs) (simp_all add: shortfall_of_def)

lemma sum_list_replicate_zero: "sum_list (replicate n (0::real)) = 0"
  by (induction n) simp_all

lemma incr_at_Nil: "incr_at [] r = r"
  by (simp add: incr_at_def map_nth)

text \<open>
  Claim C8. On a vector whose entries are already integers, \<^verbatim>\<open>oric\<close> returns the vector
  unchanged, whatever order \<^verbatim>\<open>argsort\<close> returns for the (all equal) keys.
\<close>

theorem oric_identity_on_integers: "oric_with indices (map of_int zs) = zs"
proof -
  have "sum_list (shortfall_of (map of_int zs)) = 0"
    by (simp add: shortfall_of_ints sum_list_replicate_zero)
  then have "np_round (sum_list (shortfall_of (map of_int zs))) = 0"
    using np_round_of_int [of 0] by simp
  then show ?thesis
    unfolding oric_with_def Let_def shortfall_eq
    by (simp add: slice_to_def incr_at_Nil comp_def map_idI)
qed

subsection \<open>Reductions along dimension 0\<close>

lemma length_sum_dim0 [simp]: "length (sum_dim0 t) = nfeat t"
  by (simp add: sum_dim0_def)

lemma length_th_mean0 [simp]: "length (th_mean0 t) = nfeat t"
  by (simp add: th_mean0_def)

lemma length_th_var0 [simp]: "length (th_var0 t) = nfeat t"
  by (simp add: th_var0_def)

lemma nth_sum_dim0: "j < nfeat t \<Longrightarrow> sum_dim0 t ! j = sum_list (column j t)"
  by (simp add: sum_dim0_def)

lemma sum_dim0_single: "length r = n \<Longrightarrow> sum_dim0 \<lparr>nfeat = n, rows = [r]\<rparr> = r"
  by (auto simp: sum_dim0_def column_def intro!: nth_equalityI)

lemma map_mult_one: "map ((*) (1::real)) r = r"
  by (induction r) simp_all

lemma scale_rows_one:
  "scale_rows [1] \<lparr>nfeat = n, rows = [r]\<rparr> = \<lparr>nfeat = n, rows = [r]\<rparr>"
  by (simp add: scale_rows_def map_mult_one)

lemma nfeat_scale_rows [simp]: "nfeat (scale_rows ws t) = nfeat t"
  by (simp add: scale_rows_def)

lemma nfeat_mul_elem [simp]: "nfeat (mul_elem s t) = nfeat t"
  by (simp add: mul_elem_def)

lemma map2_replicate_left:
  "length xs = n \<Longrightarrow> map2 f (replicate n c) xs = map (f c) xs"
  by (induction xs arbitrary: n) auto

lemma wf_row_length: "wf_tensor2 t \<Longrightarrow> r \<in> set (rows t) \<Longrightarrow> length r = nfeat t"
  by (simp add: wf_tensor2_def list_all_iff)

lemma column_scale_rows_const:
  assumes "wf_tensor2 t" "j < nfeat t" "length (rows t) = n"
  shows "column j (scale_rows (replicate n c) t) = map (\<lambda>v. c * v) (column j t)"
  using assms
  by (simp add: column_def scale_rows_def map2_replicate_left wf_row_length)

lemma column_mul_scale_rows_const:
  assumes "wf_tensor2 t" "j < nfeat t" "length (rows t) = n"
  shows "column j (mul_elem (scale_rows (replicate n c) t) t)
         = map (\<lambda>v. c * v\<^sup>2) (column j t)"
proof -
  have "map2 (map2 (*)) (map (map ((*) c)) rs) rs ! i ! j = c * (rs ! i ! j)\<^sup>2"
    if "i < length rs" "j < length (rs ! i)" for rs :: "real list list" and i
    using that by (simp add: power2_eq_square)
  then show ?thesis
    using assms
    by (auto simp: column_def scale_rows_def mul_elem_def map2_replicate_left wf_row_length
        intro!: nth_equalityI)
qed

subsection \<open>The 32-bit counter\<close>

lemma int32_id: "- (2 ^ 31) \<le> v \<Longrightarrow> v < 2 ^ 31 \<Longrightarrow> int32 v = v"
  by (simp add: int32_def)

lemma int32_of_nat: "n < 2 ^ 31 \<Longrightarrow> int32 (int n) = int n"
  by (rule int32_id) simp_all

subsection \<open>Construction of \<^verbatim>\<open>EMANorm\<close>\<close>

text \<open>
  Claim C6. Constructing an \<^verbatim>\<open>EMANorm\<close> fails with \<^verbatim>\<open>ValueError\<close> exactly when the
  decay is at most 0 or at least 1, and it succeeds exactly when the decay lies strictly
  between 0 and 1. (The number of features is a size, hence a natural number.)
\<close>

theorem EMANorm_init_rejects_decay:
  "(EMANorm_init nf d dwb e = Inl ValueError \<longleftrightarrow> d \<le> 0 \<or> 1 \<le> d) \<and>
   ((\<exists>s. EMANorm_init nf d dwb e = Inr s) \<longleftrightarrow> 0 < d \<and> d < 1)"
  by (auto simp: EMANorm_init_def Let_def)

theorem EMANorm_init_rejects_decay_witness:
  "EMANorm_init 3 1 False (1 / 100000) = Inl ValueError \<and>
   (\<exists>s. EMANorm_init 3 (99 / 100) False (1 / 100000) = Inr s)"
  using EMANorm_init_rejects_decay [of 3 1 False "1 / 100000"]
    EMANorm_init_rejects_decay [of 3 "99 / 100" False "1 / 100000"]
  by simp

subsection \<open>First update of \<^verbatim>\<open>EMANorm\<close>\<close>

lemma EMANorm_first_update:
  assumes "count s = 0"
  shows "EMANorm_update_stats s (Batch2 \<lparr>nfeat = length row, rows = [row]\<rparr>)
         = Inr (s\<lparr>running_mean := row, running_var := replicate (length row) 0, count := 1\<rparr>)"
  using assms
  by (simp add: EMANorm_update_stats_def as_tensor2_def Let_def vander_col_def
      scale_rows_one sum_dim0_single map_replicate_const int32_def)

lemma apply_norm_zero_var:
  assumes "running_var s = replicate (length (running_mean s)) 0"
  shows "apply_norm s x = rescaled_by_inv_sqrt_eps s x"
proof -
  have "map2 (/) (map2 (-) r m) (map (\<lambda>v. sqrt (v + e)) (replicate (length m) 0))
        = map2 (\<lambda>v m. (v - m) * (1 / sqrt e)) r m" for r m :: "real list" and e
  proof (induction r arbitrary: m)
    case Nil
    then show ?case by simp
  next
    case (Cons a r)
    then show ?case by (cases m) (simp_all add: divide_inverse)
  qed
  then show ?thesis
    by (simp add: apply_norm_def rescaled_by_inv_sqrt_eps_def assms)
qed

text \<open>
  Claim C10, as the program has it. When \<^verbatim>\<open>EMANorm.update_stats\<close> is called with
  \<open>count = 0\<close> on a batch of exactly one row, the running mean becomes that row, the running
  variance becomes the zero vector and the count becomes 1. A forward call in evaluation
  mode on the resulting state leaves the state alone and returns the input centred on that
  row and multiplied by \<open>1 / sqrt eps\<close>.
\<close>

theorem EMANorm_first_single_row_update:
  assumes "count s = 0"
  shows "EMANorm_update_stats s (Batch2 \<lparr>nfeat = length row, rows = [row]\<rparr>)
       = Inr (s\<lparr>running_mean := row, running_var := replicate (length row) 0, count := 1\<rparr>)
     \<and> EMANorm_forward
         (s\<lparr>running_mean := row, running_var := replicate (length row) 0, count := 1,
            training := False\<rparr>) x
       = Inr (s\<lparr>running_mean := row, running_var := replicate (length row) 0, count := 1,
                training := False\<rparr>,
              rescaled_by_inv_sqrt_eps (s\<lparr>running_mean := row\<rparr>) x)"
proof -
  let ?s' = "s\<lparr>running_mean := row, running_var := replicate (length row) 0, count := 1,
               training := False\<rparr>"
  have "apply_norm ?s' x = rescaled_by_inv_sqrt_eps ?s' x"
    by (rule apply_norm_zero_var) simp
  then have "EMANorm_forward ?s' x
         = Inr (?s', rescaled_by_inv_sqrt_eps (s\<lparr>running_mean := row\<rparr>) x)"
    by (simp add: EMANorm_forward_def rescaled_by_inv_sqrt_eps_def)
  then show ?thesis
    using EMANorm_first_update [OF assms, of row] by simp
qed

theorem EMANorm_first_single_row_update_witness:
  "EMANorm_update_stats
     \<lparr>eps = 1, training = True, running_mean = [0], running_var = [1], count = 0,
      decay = 1 / 4, decay_within_batch = False\<rparr>
     (Batch2 \<lparr>nfeat = 1, rows = [[7]]\<rparr>)
   = Inr \<lparr>eps = 1, training = True, running_mean = [7], running_var = [0], count = 1,
          decay = 1 / 4, decay_within_batch = False\<rparr>
   \<and> EMANorm_forward
       \<lparr>eps = 1, training = False, running_mean = [7], running_var = [0], count = 1,
        decay = 1 / 4, decay_within_batch = False\<rparr>
       \<lparr>nfeat = 1, rows = [[4]]\<rparr>
     = Inr (\<lparr>eps = 1, training = False, running_mean = [7], running_var = [0], count = 1,
             decay = 1 / 4, decay_within_batch = False\<rparr>, [[- 3]])"
  using EMANorm_first_single_row_update
    [of "\<lparr>eps = 1, training = True, running_mean = [0], running_var = [1], count = 0,
          decay = 1 / 4, decay_within_batch = False\<rparr>" "[7]" "\<lparr>nfeat = 1, rows = [[4]]\<rparr>"]
  by (simp add: rescaled_by_inv_sqrt_eps_def)

text \<open>
  The claim as stated fails for a forward call in training mode: that call updates the
  statistics again before it normalises. After a first update on the row \<open>[0]\<close> (decay
  \<open>1/4\<close>, \<open>eps = 1\<close>) the next forward call on \<open>[[4]]\<close> returns \<open>[[1/2]]\<close>, while
  rescaling by \<open>1 / sqrt eps\<close> gives \<open>[[4]]\<close> around the old mean and \<open>[[1]]\<close> around the
  new one.
\<close>

theorem EMANorm_next_forward_counterexample:
  "EMANorm_update_stats
     \<lparr>eps = 1, training = True, running_mean = [0], running_var = [1], count = 0,
      decay = 1 / 4, decay_within_batch = False\<rparr>
     (Batch2 \<lparr>nfeat = 1, rows = [[0]]\<rparr>)
   = Inr \<lparr>eps = 1, training = True, running_mean = [0], running_var = [0], count = 1,
          decay = 1 / 4, decay_within_batch = False\<rparr>
   \<and> EMANorm_forward
       \<lparr>eps = 1, training = True, running_mean = [0], running_var = [0], count = 1,
        decay = 1 / 4, decay_within_batch = False\<rparr>
       \<lparr>nfeat = 1, rows = [[4]]\<rparr>
     = Inr (\<lparr>eps = 1, training = True, running_mean = [3], running_var = [3], count = 2,
             decay = 1 / 4, decay_within_batch = False\<rparr>, [[1 / 2]])
   \<and> rescaled_by_inv_sqrt_eps
       \<lparr>eps = 1, training = True, running_mean = [0], running_var = [0], count = 1,
        decay = 1 / 4, decay_within_batch = False\<rparr>
       \<lparr>nfeat = 1, rows = [[4]]\<rparr> = [[4]]
   \<and> rescaled_by_inv_sqrt_eps
       \<lparr>eps = 1, training = True, running_mean = [3], running_var = [3], count = 2,
        decay = 1 / 4, decay_within_batch = False\<rparr>
       \<lparr>nfeat = 1, rows = [[4]]\<rparr> = [[1]]"
  by (simp add: EMANorm_update_stats_def EMANorm_forward_def as_tensor2_def Let_def
      scale_rows_def sum_dim0_def column_def mul_elem_def apply_norm_def
      rescaled_by_inv_sqrt_eps_def power2_eq_square int32_def)

subsection \<open>Later updates of \<^verbatim>\<open>EMANorm\<close> with uniform weights\<close>

text \<open>
  Claim C4. With \<open>decay_within_batch = False\<close> and \<open>count > 0\<close>, an update on a batch of
  shape \<open>(B, F)\<close>, \<open>B \<ge> 1\<close>, sets the running mean to
  \<open>decay * old_mean + (1 - decay) * batch_mean\<close> and the running variance to
  \<open>decay * (old_var + old_mean\<^sup>2) + ((1 - decay) / B) * \<Sum> x\<^sup>2 - new_mean\<^sup>2\<close>, column by
  column, and adds \<open>B\<close> to the 32-bit count.
\<close>

theorem EMANorm_uniform_update:
  assumes "\<not> decay_within_batch s" "0 < count s" "wf_tensor2 b" "rows b \<noteq> []"
    and "length (running_mean s) = nfeat b" "length (running_var s) = nfeat b"
  shows "EMANorm_update_stats s (Batch2 b) =
    Inr (s\<lparr>running_mean :=
             map (\<lambda>j. decay s * running_mean s ! j + (1 - decay s) * th_mean0 b ! j)
               [0..<nfeat b],
           running_var :=
             map (\<lambda>j. decay s * (running_var s ! j + (running_mean s ! j)\<^sup>2)
                      + (1 - decay s) / real (length (rows b))
                          * sum_list (map (\<lambda>v. v\<^sup>2) (column j b))
                      - (decay s * running_mean s ! j + (1 - decay s) * th_mean0 b ! j)\<^sup>2)
               [0..<nfeat b],
           count := int32 (count s + int (length (rows b)))\<rparr>)"
proof -
  let ?B = "length (rows b)"
  let ?w = "replicate ?B ((1 - decay s) / real ?B)"
  have B: "real ?B \<noteq> 0" using assms(4) by simp
  have wbm: "sum_dim0 (scale_rows ?w b) ! j = (1 - decay s) * th_mean0 b ! j"
    if "j < nfeat b" for j
  proof -
    have "sum_dim0 (scale_rows ?w b) ! j
        = sum_list (map (\<lambda>v. ((1 - decay s) / real ?B) * v) (column j b))"
      using that assms(3) by (simp only: nfeat_scale_rows nth_sum_dim0 column_scale_rows_const)
    also have "\<dots> = ((1 - decay s) / real ?B) * sum_list (column j b)"
      by (subst sum_list_const_mult) simp
    also have "\<dots> = (1 - decay s) * th_mean0 b ! j"
      using that by (simp add: th_mean0_def mean_def column_def)
    finally show ?thesis .
  qed
  have wsq: "sum_dim0 (mul_elem (scale_rows ?w b) b) ! j
      = (1 - decay s) / real ?B * sum_list (map (\<lambda>v. v\<^sup>2) (column j b))"
    if "j < nfeat b" for j
  proof -
    have "sum_dim0 (mul_elem (scale_rows ?w b) b) ! j
        = sum_list (map (\<lambda>v. ((1 - decay s) / real ?B) * v\<^sup>2) (column j b))"
      using that assms(3)
      by (simp only: nfeat_mul_elem nth_sum_dim0 column_mul_scale_rows_const)
    also have "\<dots> = ((1 - decay s) / real ?B) * sum_list (map (\<lambda>v. v\<^sup>2) (column j b))"
      by (subst sum_list_const_mult) simp
    finally show ?thesis by simp
  qed
  have rm: "map2 (+) (map (\<lambda>m. m * decay s) (running_mean s)) (sum_dim0 (scale_rows ?w b))
      = map (\<lambda>j. decay s * running_mean s ! j + (1 - decay s) * th_mean0 b ! j) [0..<nfeat b]"
    using assms(5) by (auto intro!: nth_equalityI simp: wbm mult.commute)
  have rv: "map2 (\<lambda>v m. v - m\<^sup>2)
       (map2 (+) (map (\<lambda>v. decay s * v)
                     (map2 (\<lambda>v m. v + m\<^sup>2) (running_var s) (running_mean s)))
          (sum_dim0 (mul_elem (scale_rows ?w b) b)))
       (map (\<lambda>j. decay s * running_mean s ! j + (1 - decay s) * th_mean0 b ! j) [0..<nfeat b])
     = map (\<lambda>j. decay s * (running_var s ! j + (running_mean s ! j)\<^sup>2)
                      + (1 - decay s) / real ?B * sum_list (map (\<lambda>v. v\<^sup>2) (column j b))
                      - (decay s * running_mean s ! j + (1 - decay s) * th_mean0 b ! j)\<^sup>2)
               [0..<nfeat b]"
    using assms(5,6) by (auto intro!: nth_equalityI simp: wsq)
  show ?thesis
    using assms(1,2)
    by (simp add: EMANorm_update_stats_def as_tensor2_def Let_def map_replicate_const rm rv
        del: map_map)
qed

theorem EMANorm_uniform_update_witness:
  "EMANorm_update_stats
     \<lparr>eps = 1 / 100000, training = True, running_mean = [1], running_var = [0], count = 1,
      decay = 9 / 10, decay_within_batch = False\<rparr>
     (Batch2 \<lparr>nfeat = 1, rows = [[3]]\<rparr>)
   = Inr \<lparr>eps = 1 / 100000, training = True, running_mean = [6 / 5], running_var = [9 / 25],
          count = 2, decay = 9 / 10, decay_within_batch = False\<rparr>"
  using EMANorm_uniform_update
    [of "\<lparr>eps = 1 / 100000, training = True, running_mean = [1], running_var = [0],
          count = 1, decay = 9 / 10, decay_within_batch = False\<rparr>" "\<lparr>nfeat = 1, rows = [[3]]\<rparr>"]
  by (simp add: wf_tensor2_def th_mean0_def mean_def column_def power2_eq_square int32_def)

subsection \<open>The combination formula of Chan et al.\<close>

lemma sum_sq_shift:
  "sum_list (map (\<lambda>v. (v - c)\<^sup>2) xs)
   = sum_list (map (\<lambda>v. v\<^sup>2) xs) - 2 * c * sum_list xs + real (length xs) * c\<^sup>2" for c :: real
  by (induction xs) (simp_all add: power2_eq_square algebra_simps)

lemma chan_mean_identity:
  fixes n m Sx Sy :: real
  assumes "n \<noteq> 0" "m \<noteq> 0" "n + m \<noteq> 0"
  shows "(Sx + Sy) / (n + m) = Sx / n + (Sy / m - Sx / n) * m / (n + m)"
proof -
  define a b c where "a = inverse n" and "b = inverse m" and "c = inverse (n + m)"
  have r: "n * a = 1" "m * b = 1" "(n + m) * c = 1"
    using assms by (simp_all add: a_def b_def c_def)
  have "(Sx + Sy) * c = Sx * a + (Sy * b - Sx * a) * m * c"
    using r by algebra
  then show ?thesis
    by (simp add: divide_inverse a_def b_def c_def)
qed

lemma chan_var_identity:
  fixes n m Sx Sy Qx Qy :: real
  assumes "n \<noteq> 0" "m \<noteq> 0" "n + m \<noteq> 0"
  shows "(Qx + Qy) - (Sx + Sy)\<^sup>2 / (n + m)
      = (Qx - Sx\<^sup>2 / n) + (Qy - Sy\<^sup>2 / m) + (Sy / m - Sx / n)\<^sup>2 * n * m / (n + m)"
proof -
  define a b c where "a = inverse n" and "b = inverse m" and "c = inverse (n + m)"
  have r: "n * a = 1" "m * b = 1" "(n + m) * c = 1"
    using assms by (simp_all add: a_def b_def c_def)
  have "(Qx + Qy) - (Sx + Sy)\<^sup>2 * c
      = (Qx - Sx\<^sup>2 * a) + (Qy - Sy\<^sup>2 * b) + (Sy * b - Sx * a)\<^sup>2 * n * m * c"
    using r by algebra
  then show ?thesis
    by (simp add: divide_inverse a_def b_def c_def)
qed

lemma pvariance_alt:
  assumes "xs \<noteq> []"
  shows "pvariance xs * real (length xs)
         = sum_list (map (\<lambda>v. v\<^sup>2) xs) - (sum_list xs)\<^sup>2 / real (length xs)"
proof -
  define n S Q where "n = real (length xs)" and "S = sum_list xs"
    and "Q = sum_list (map (\<lambda>v. v\<^sup>2) xs)"
  have n: "n \<noteq> 0" using assms by (simp add: n_def)
  have "pvariance xs * n = Q - 2 * (S / n) * S + n * (S / n)\<^sup>2"
    using n by (simp add: pvariance_def Let_def mean_def sum_sq_shift n_def S_def Q_def)
  also have "\<dots> = Q - S\<^sup>2 / n"
    using n by (simp add: power2_eq_square field_simps)
  finally show ?thesis by (simp add: n_def S_def Q_def)
qed

lemma mean_append:
  assumes "xs \<noteq> []" "ys \<noteq> []"
  shows "mean (xs @ ys)
     = mean xs + (mean ys - mean xs) * real (length ys) / real (length xs + length ys)"
proof -
  have "real (length xs) \<noteq> 0" "real (length ys) \<noteq> 0" "real (length xs) + real (length ys) \<noteq> 0"
    using assms by (simp_all add: add_nonneg_eq_0_iff)
  from chan_mean_identity [OF this, of "sum_list xs" "sum_list ys"] show ?thesis
    by (simp add: mean_def)
qed

lemma pvariance_append:
  assumes "xs \<noteq> []" "ys \<noteq> []"
  shows "pvariance (xs @ ys)
     = (pvariance xs * real (length xs) + pvariance ys * real (length ys)
        + (mean ys - mean xs)\<^sup>2 * real (length xs) * real (length ys)
            / real (length xs + length ys))
       / real (length xs + length ys)"
proof -
  define n m Sx Sy Qx Qy where "n = real (length xs)" and "m = real (length ys)"
    and "Sx = sum_list xs" and "Sy = sum_list ys"
    and "Qx = sum_list (map (\<lambda>v. v\<^sup>2) xs)" and "Qy = sum_list (map (\<lambda>v. v\<^sup>2) ys)"
  have nz: "n \<noteq> 0" "m \<noteq> 0" "n + m \<noteq> 0"
    using assms by (simp_all add: n_def m_def add_nonneg_eq_0_iff)
  have vx: "pvariance xs * n = Qx - Sx\<^sup>2 / n"
    using pvariance_alt [OF assms(1)] by (simp add: n_def Sx_def Qx_def)
  have vy: "pvariance ys * m = Qy - Sy\<^sup>2 / m"
    using pvariance_alt [OF assms(2)] by (simp add: m_def Sy_def Qy_def)
  have vxy: "pvariance (xs @ ys) * (n + m) = (Qx + Qy) - (Sx + Sy)\<^sup>2 / (n + m)"
    using pvariance_alt [of "xs @ ys"] assms
    by (simp add: n_def m_def Sx_def Sy_def Qx_def Qy_def)
  have mx: "mean xs = Sx / n" and my: "mean ys = Sy / m"
    by (simp_all add: mean_def n_def m_def Sx_def Sy_def)
  have "pvariance (xs @ ys) * (n + m)
      = pvariance xs * n + pvariance ys * m + (mean ys - mean xs)\<^sup>2 * n * m / (n + m)"
    by (simp only: vxy chan_var_identity [OF nz] vx vy mx my)
  then have "pvariance (xs @ ys)
      = (pvariance xs * n + pvariance ys * m + (mean ys - mean xs)\<^sup>2 * n * m / (n + m)) / (n + m)"
    using nz(3) by (metis nonzero_eq_divide_eq)
  then show ?thesis
    by (simp add: n_def m_def)
qed

subsection \<open>\<^verbatim>\<open>RunningNorm.update_stats\<close>\<close>

text \<open>
  While the count is the number \<open>n\<^sub>0\<close> of rows seen and \<open>n\<^sub>0 + B\<close> fits the counter, no
  addition wraps, and the statements of the function collapse to one expression per
  column.
\<close>

lemma RunningNorm_update_stats_closed:
  assumes "length (running_mean s) = nfeat b" "length (running_var s) = nfeat b"
    and "count s = int n0" "n0 + length (rows b) < 2 ^ 31"
  shows "RunningNorm_update_stats s b =
    s\<lparr>running_mean :=
        map (\<lambda>j. running_mean s ! j
                 + (th_mean0 b ! j - running_mean s ! j) * real (length (rows b))
                     / real (n0 + length (rows b)))
          [0..<nfeat b],
      running_var :=
        map (\<lambda>j. (running_var s ! j * real n0
                  + th_var0 b ! j * real (length (rows b))
                  + (th_mean0 b ! j - running_mean s ! j)\<^sup>2 * real n0
                      * real (length (rows b)) / real (n0 + length (rows b)))
                 / real (n0 + length (rows b)))
          [0..<nfeat b],
      count := int (n0 + length (rows b))\<rparr>"
proof -
  let ?n1 = "length (rows b)" and ?n = "n0 + length (rows b)"
  let ?delta = "map2 (-) (th_mean0 b) (running_mean s)"
  have tc: "int32 (int n0 + int ?n1) = int ?n"
    using int32_of_nat [OF assms(4)] by simp
  have rm: "map2 (+) (running_mean s) (map (\<lambda>d. d * real ?n1 / real ?n) ?delta)
      = map (\<lambda>j. running_mean s ! j
                 + (th_mean0 b ! j - running_mean s ! j) * real ?n1 / real ?n) [0..<nfeat b]"
    using assms(1,2) by (auto intro!: nth_equalityI)
  have rv: "map (\<lambda>v. v / real ?n)
       (map2 (+)
          (map2 (+) (map (\<lambda>v. v * real n0) (running_var s))
             (map (\<lambda>v. v * real ?n1) (th_var0 b)))
          (map (\<lambda>d. d\<^sup>2 * real n0 * real ?n1 / real ?n) ?delta))
      = map (\<lambda>j. (running_var s ! j * real n0 + th_var0 b ! j * real ?n1
                  + (th_mean0 b ! j - running_mean s ! j)\<^sup>2 * real n0
                      * real ?n1 / real ?n) / real ?n) [0..<nfeat b]"
    using assms(1,2) by (auto intro!: nth_equalityI)
  show ?thesis
    unfolding RunningNorm_update_stats_def Let_def assms(3) tc of_int_of_nat_eq
    by (simp only: rm rv)
qed

lemma RunningNorm_update_stats_first:
  assumes "length (running_mean s) = nfeat b" "length (running_var s) = nfeat b"
    and "rows b \<noteq> []" "count s = 0" "length (rows b) < 2 ^ 31"
  shows "RunningNorm_update_stats s b =
    s\<lparr>running_mean := th_mean0 b, running_var := th_var0 b,
      count := int (length (rows b))\<rparr>"
proof -
  have "map (\<lambda>j. running_mean s ! j
                 + (th_mean0 b ! j - running_mean s ! j) * real (length (rows b))
                     / real (0 + length (rows b))) [0..<nfeat b] = th_mean0 b"
    using assms(3) by (auto intro!: nth_equalityI)
  moreover have "map (\<lambda>j. (running_var s ! j * real (0::nat)
                  + th_var0 b ! j * real (length (rows b))
                  + (th_mean0 b ! j - running_mean s ! j)\<^sup>2 * real (0::nat)
                      * real (length (rows b)) / real (0 + length (rows b)))
                 / real (0 + length (rows b))) [0..<nfeat b] = th_var0 b"
    using assms(3) by (auto intro!: nth_equalityI)
  ultimately show ?thesis
    using RunningNorm_update_stats_closed [OF assms(1,2), of 0] assms(4,5) by simp
qed

lemma chan_combine_closed:
  assumes "count s = int n0"
  shows "chan_combine s b =
    s\<lparr>running_mean :=
        map (\<lambda>j. running_mean s ! j
                 + (th_mean0 b ! j - running_mean s ! j) * real (length (rows b))
                     / real (n0 + length (rows b)))
          [0..<nfeat b],
      running_var :=
        map (\<lambda>j. (running_var s ! j * real n0
                  + th_var0 b ! j * real (length (rows b))
                  + (th_mean0 b ! j - running_mean s ! j)\<^sup>2 * real n0
                      * real (length (rows b)) / real (n0 + length (rows b)))
                 / real (n0 + length (rows b)))
          [0..<nfeat b],
      count := int (n0 + length (rows b))\<rparr>"
  unfolding chan_combine_def Let_def assms by simp

text \<open>
  Claim C2, as the program has it. The count is a 32-bit signed integer. When it holds a
  number \<open>n\<^sub>0 \<ge> 0\<close> and \<open>n\<^sub>0 + B\<close> is at most \<open>2\<^sup>3\<^sup>1 - 1\<close>, one call of
  \<^verbatim>\<open>RunningNorm.update_stats\<close> on a non-empty batch of shape \<open>(B, F)\<close> combines the prior
  aggregate \<open>(mean\<^sub>0, var\<^sub>0, n\<^sub>0)\<close> with the batch moments \<open>(mean\<^sub>1, var\<^sub>1, n\<^sub>1 = B)\<close> by the
  formula of Chan et al.: the new mean is \<open>mean\<^sub>0 + delta * n\<^sub>1 / n\<close>, the new variance is
  \<open>(var\<^sub>0 * n\<^sub>0 + var\<^sub>1 * n\<^sub>1 + delta\<^sup>2 * n\<^sub>0 * n\<^sub>1 / n) / n\<close> and the new count is \<open>n = n\<^sub>0 + n\<^sub>1\<close>.
  When \<open>n\<^sub>0 = 0\<close> the result is \<open>(mean\<^sub>1, var\<^sub>1, n\<^sub>1)\<close>, whatever the buffers held before.
\<close>

theorem RunningNorm_update_stats_chan:
  assumes "rows b \<noteq> []"
    and "length (running_mean s) = nfeat b" "length (running_var s) = nfeat b"
    and "0 \<le> count s" "count s + int (length (rows b)) < 2 ^ 31"
  shows "RunningNorm_update_stats s b = chan_combine s b
    \<and> (count s = 0 \<longrightarrow>
         RunningNorm_update_stats s b =
           s\<lparr>running_mean := th_mean0 b, running_var := th_var0 b,
             count := int (length (rows b))\<rparr>)"
proof -
  define n0 where "n0 = nat (count s)"
  have c: "count s = int n0" using assms(4) by (simp add: n0_def)
  have "int (n0 + length (rows b)) < 2 ^ 31" using assms(5) c by simp
  then have bound: "n0 + length (rows b) < 2 ^ 31"
    by (metis of_nat_less_iff of_nat_numeral of_nat_power)
  have "RunningNorm_update_stats s b = chan_combine s b"
    by (simp only: RunningNorm_update_stats_closed [OF assms(2,3) c bound]
        chan_combine_closed [OF c])
  moreover have "RunningNorm_update_stats s b =
      s\<lparr>running_mean := th_mean0 b, running_var := th_var0 b,
        count := int (length (rows b))\<rparr>" if "count s = 0"
    using that bound c by (intro RunningNorm_update_stats_first assms) simp_all
  ultimately show ?thesis by blast
qed

theorem RunningNorm_update_stats_chan_witness:
  "RunningNorm_update_stats
     \<lparr>eps = 1 / 100000, training = True, running_mean = [2], running_var = [1], count = 2\<rparr>
     \<lparr>nfeat = 1, rows = [[5], [7]]\<rparr>
   = \<lparr>eps = 1 / 100000, training = True, running_mean = [4], running_var = [5], count = 4\<rparr>
   \<and> RunningNorm_update_stats (BaseNorm_init 1 (1 / 100000)) \<lparr>nfeat = 1, rows = [[1], [3]]\<rparr>
     = \<lparr>eps = 1 / 100000, training = True, running_mean = [2], running_var = [1], count = 2\<rparr>"
  using RunningNorm_update_stats_chan
      [of "\<lparr>nfeat = 1, rows = [[5], [7]]\<rparr>"
          "\<lparr>eps = 1 / 100000, training = True, running_mean = [2], running_var = [1],
            count = 2\<rparr>"]
    RunningNorm_update_stats_chan
      [of "\<lparr>nfeat = 1, rows = [[1], [3]]\<rparr>" "BaseNorm_init 1 (1 / 100000)"]
  by (simp add: BaseNorm_init_def reset_running_stats_def chan_combine_def th_mean0_def
      th_var0_def mean_def pvariance_def column_def Let_def power2_eq_square)

text \<open>
  Without the bound the claim fails. With a count of \<open>2\<^sup>3\<^sup>1 - 1\<close>, mean 0 and a batch of the
  single row \<open>[1]\<close>, the sum \<^verbatim>\<open>tot_count\<close> wraps to \<open>-2\<^sup>3\<^sup>1\<close>: the program moves the mean to
  \<open>-1 / 2\<^sup>3\<^sup>1\<close> and stores the count \<open>-2\<^sup>3\<^sup>1\<close>, where the formula gives \<open>1 / 2\<^sup>3\<^sup>1\<close> and
  \<open>2\<^sup>3\<^sup>1\<close>.
\<close>

theorem RunningNorm_update_stats_overflow_counterexample:
  "running_mean (RunningNorm_update_stats
      \<lparr>eps = 1 / 100000, training = True, running_mean = [0], running_var = [1],
       count = 2147483647\<rparr> \<lparr>nfeat = 1, rows = [[1]]\<rparr>) = [- (1 / 2147483648)]
   \<and> count (RunningNorm_update_stats
      \<lparr>eps = 1 / 100000, training = True, running_mean = [0], running_var = [1],
       count = 2147483647\<rparr> \<lparr>nfeat = 1, rows = [[1]]\<rparr>) = - 2147483648
   \<and> running_mean (chan_combine
      \<lparr>eps = 1 / 100000, training = True, running_mean = [0], running_var = [1],
       count = 2147483647\<rparr> \<lparr>nfeat = 1, rows = [[1]]\<rparr>) = [1 / 2147483648]
   \<and> count (chan_combine
      \<lparr>eps = 1 / 100000, training = True, running_mean = [0], running_var = [1],
       count = 2147483647\<rparr> \<lparr>nfeat = 1, rows = [[1]]\<rparr>) = 2147483648"
  by (simp add: RunningNorm_update_stats_def chan_combine_def Let_def int32_def th_mean0_def
      th_var0_def mean_def pvariance_def column_def)

subsection \<open>Feeding a data set in sub-batches\<close>

lemma stats_of_step_aux:
  assumes inv: "stats_of s (nfeat b) rs" and d: "rs \<noteq> []" and b: "rows b \<noteq> []"
    and fits: "length rs + length (rows b) < 2 ^ 31"
  shows "stats_of (RunningNorm_update_stats s b) (nfeat b) (rs @ rows b)"
proof -
  let ?d = "\<lparr>nfeat = nfeat b, rows = rs\<rparr>" and ?d' = "\<lparr>nfeat = nfeat b, rows = rs @ rows b\<rparr>"
  have len: "length (running_mean s) = nfeat b" "length (running_var s) = nfeat b"
    using inv by (simp_all add: stats_of_def)
  have cs: "count s = int (length rs)" and rm: "running_mean s = th_mean0 ?d"
    and rv: "running_var s = th_var0 ?d"
    using inv by (simp_all add: stats_of_def)
  have col: "column j ?d' = column j ?d @ column j b" for j
    by (simp add: column_def)
  have ne: "column j ?d \<noteq> []" "column j b \<noteq> []" for j
    using d b by (simp_all add: column_def)
  have lc: "length (column j ?d) = length rs" "length (column j b) = length (rows b)" for j
    by (simp_all add: column_def)
  have m: "th_mean0 ?d' ! j = th_mean0 ?d ! j
      + (th_mean0 b ! j - th_mean0 ?d ! j) * real (length (rows b))
          / real (length rs + length (rows b))" if "j < nfeat b" for j
    using that mean_append [OF ne, of j j]
    by (simp add: th_mean0_def col lc)
  have v: "th_var0 ?d' ! j = (th_var0 ?d ! j * real (length rs)
        + th_var0 b ! j * real (length (rows b))
        + (th_mean0 b ! j - th_mean0 ?d ! j)\<^sup>2 * real (length rs) * real (length (rows b))
            / real (length rs + length (rows b)))
       / real (length rs + length (rows b))" if "j < nfeat b" for j
    using that pvariance_append [OF ne, of j j]
    by (simp add: th_var0_def th_mean0_def col lc)
  note closed = RunningNorm_update_stats_closed [OF len cs fits]
  have "running_mean (RunningNorm_update_stats s b) = th_mean0 ?d'"
    unfolding closed by (auto intro!: nth_equalityI simp: m rm)
  moreover have "running_var (RunningNorm_update_stats s b) = th_var0 ?d'"
    unfolding closed by (auto intro!: nth_equalityI simp: v rm rv)
  moreover have "count (RunningNorm_update_stats s b) = int (length (rs @ rows b))"
    unfolding closed by simp
  ultimately show ?thesis
    unfolding stats_of_def by blast
qed

lemma stats_of_step:
  assumes "stats_of s F rs" "rs \<noteq> []" "rows b \<noteq> []" "nfeat b = F"
    and "length rs + length (rows b) < 2 ^ 31"
  shows "stats_of (RunningNorm_update_stats s b) F (rs @ rows b)"
  using stats_of_step_aux [of s b rs] assms by simp

lemma stats_of_foldl:
  assumes "stats_of s F rs" "rs \<noteq> []"
    and "\<forall>b \<in> set bs. nfeat b = F \<and> rows b \<noteq> []"
    and "length rs + length (concat (map rows bs)) < 2 ^ 31"
  shows "stats_of (foldl RunningNorm_update_stats s bs) F (rs @ concat (map rows bs))"
  using assms
proof (induction bs arbitrary: s rs)
  case Nil
  then show ?case by simp
next
  case (Cons b bs)
  have b: "nfeat b = F" "rows b \<noteq> []" using Cons.prems(3) by simp_all
  have fits: "length rs + length (rows b) < 2 ^ 31"
    using Cons.prems(4) by simp
  have 1: "stats_of (RunningNorm_update_stats s b) F (rs @ rows b)"
    using Cons.prems(1,2) b(2,1) fits by (rule stats_of_step)
  have 2: "rs @ rows b \<noteq> []" using Cons.prems(2) by simp
  have 3: "\<forall>c \<in> set bs. nfeat c = F \<and> rows c \<noteq> []"
    using Cons.prems(3) by simp
  have 4: "length (rs @ rows b) + length (concat (map rows bs)) < 2 ^ 31"
    using Cons.prems(4) by (simp add: add.assoc)
  have "stats_of (foldl RunningNorm_update_stats (RunningNorm_update_stats s b) bs) F
      ((rs @ rows b) @ concat (map rows bs))"
    using 1 2 3 4 by (rule Cons.IH)
  then show ?case by simp
qed

text \<open>
  Claim C3, as the program has it. Starting from the reset state (mean 0, variance 1,
  count 0), feeding the non-empty sub-batches of a data set of at most \<open>2\<^sup>3\<^sup>1 - 1\<close> rows one
  after the other yields the mean and the population variance of the concatenation of all
  the rows, column by column, whatever the split; the count is the number of rows. The data
  set has at least one row, since every sub-batch has.
\<close>

theorem RunningNorm_split_independent:
  assumes "batches \<noteq> []" "\<forall>b \<in> set batches. nfeat b = F \<and> rows b \<noteq> []"
    and "length (concat (map rows batches)) < 2 ^ 31"
  shows "running_mean (foldl RunningNorm_update_stats (BaseNorm_init F e) batches)
           = th_mean0 \<lparr>nfeat = F, rows = concat (map rows batches)\<rparr>
       \<and> running_var (foldl RunningNorm_update_stats (BaseNorm_init F e) batches)
           = th_var0 \<lparr>nfeat = F, rows = concat (map rows batches)\<rparr>
       \<and> count (foldl RunningNorm_update_stats (BaseNorm_init F e) batches)
           = int (length (concat (map rows batches)))"
proof -
  obtain b bs where bb: "batches = b # bs" using assms(1) by (cases batches) auto
  let ?s0 = "BaseNorm_init F e"
  have b: "nfeat b = F" "rows b \<noteq> []" using assms(2) bb by simp_all
  have fits: "length (rows b) + length (concat (map rows bs)) < 2 ^ 31"
    using assms(3) bb by simp
  then have fits1: "length (rows b) < 2 ^ 31" by simp
  have "RunningNorm_update_stats ?s0 b =
      ?s0\<lparr>running_mean := th_mean0 b, running_var := th_var0 b,
          count := int (length (rows b))\<rparr>"
    using b fits1 by (intro RunningNorm_update_stats_first)
      (simp_all add: BaseNorm_init_def reset_running_stats_def)
  moreover have "\<lparr>nfeat = F, rows = rows b\<rparr> = b" using b(1) by simp
  ultimately have 1: "stats_of (RunningNorm_update_stats ?s0 b) F (rows b)"
    by (simp add: stats_of_def)
  have 3: "\<forall>c \<in> set bs. nfeat c = F \<and> rows c \<noteq> []"
    using assms(2) bb by simp
  have "stats_of (foldl RunningNorm_update_stats (RunningNorm_update_stats ?s0 b) bs) F
      (rows b @ concat (map rows bs))"
    using 1 b(2) 3 fits by (rule stats_of_foldl)
  then have "stats_of (foldl RunningNorm_update_stats ?s0 batches) F
      (concat (map rows batches))"
    by (simp add: bb)
  then show ?thesis
    unfolding stats_of_def by blast
qed

theorem RunningNorm_split_independent_witness:
  "running_mean (foldl RunningNorm_update_stats (BaseNorm_init 1 (1 / 100000))
      [\<lparr>nfeat = 1, rows = [[1], [2]]\<rparr>, \<lparr>nfeat = 1, rows = [[3]]\<rparr>]) = [2]
   \<and> running_var (foldl RunningNorm_update_stats (BaseNorm_init 1 (1 / 100000))
      [\<lparr>nfeat = 1, rows = [[1], [2]]\<rparr>, \<lparr>nfeat = 1, rows = [[3]]\<rparr>]) = [2 / 3]
   \<and> count (foldl RunningNorm_update_stats (BaseNorm_init 1 (1 / 100000))
      [\<lparr>nfeat = 1, rows = [[1], [2]]\<rparr>, \<lparr>nfeat = 1, rows = [[3]]\<rparr>]) = 3"
  using RunningNorm_split_independent
      [of "[\<lparr>nfeat = 1, rows = [[1], [2]]\<rparr>, \<lparr>nfeat = 1, rows = [[3]]\<rparr>]" 1 "1 / 100000"]
  by (simp add: th_mean0_def th_var0_def mean_def pvariance_def column_def Let_def
      power2_eq_square)

lemma th_mean0_zero_rows: "th_mean0 \<lparr>nfeat = 1, rows = replicate n [0]\<rparr> = [0]"
  by (simp add: th_mean0_def mean_def column_def sum_list_replicate_zero)

lemma th_var0_zero_rows: "th_var0 \<lparr>nfeat = 1, rows = replicate n [0]\<rparr> = [0]"
  by (simp add: th_var0_def pvariance_def mean_def column_def Let_def comp_def
      sum_list_replicate_zero)

lemma th_mean0_zero_rows_one:
  "th_mean0 \<lparr>nfeat = 1, rows = replicate n [0] @ [[1]]\<rparr> = [1 / (real n + 1)]"
  by (simp add: th_mean0_def mean_def column_def sum_list_replicate_zero add.commute)

lemma zero_rows_then_one:
  assumes "0 < n" "n < 2 ^ 31"
  shows "running_mean (foldl RunningNorm_update_stats (BaseNorm_init 1 e)
      [\<lparr>nfeat = 1, rows = replicate n [0]\<rparr>, \<lparr>nfeat = 1, rows = [[1]]\<rparr>])
    = [1 / of_int (int32 (int n + 1))]"
proof -
  let ?b = "\<lparr>nfeat = 1, rows = replicate n [0]\<rparr>"
  have "RunningNorm_update_stats (BaseNorm_init 1 e) ?b =
      (BaseNorm_init 1 e)\<lparr>running_mean := th_mean0 ?b, running_var := th_var0 ?b,
          count := int (length (rows ?b))\<rparr>"
    using assms by (intro RunningNorm_update_stats_first)
      (simp_all add: BaseNorm_init_def reset_running_stats_def)
  then have "RunningNorm_update_stats (BaseNorm_init 1 e) ?b =
      (BaseNorm_init 1 e)\<lparr>running_mean := [0], running_var := [0], count := int n\<rparr>"
    by (simp only: th_mean0_zero_rows th_var0_zero_rows tensor2.simps length_replicate)
  then show ?thesis
    by (simp add: RunningNorm_update_stats_def Let_def th_mean0_def th_var0_def mean_def
        pvariance_def column_def)
qed

text \<open>
  Without the bound the claim fails. A first sub-batch of \<open>2\<^sup>3\<^sup>1 - 1\<close> rows \<open>[0]\<close> followed
  by a sub-batch of the single row \<open>[1]\<close> makes the second \<^verbatim>\<open>tot_count\<close> wrap to \<open>-2\<^sup>3\<^sup>1\<close>:
  the program ends with the mean \<open>-1 / 2\<^sup>3\<^sup>1\<close>, while the mean of the \<open>2\<^sup>3\<^sup>1\<close> rows is
  \<open>1 / 2\<^sup>3\<^sup>1\<close>.
\<close>

theorem RunningNorm_split_overflow_counterexample:
  "running_mean (foldl RunningNorm_update_stats (BaseNorm_init 1 (1 / 100000))
      [\<lparr>nfeat = 1, rows = replicate 2147483647 [0]\<rparr>, \<lparr>nfeat = 1, rows = [[1]]\<rparr>])
    = [- (1 / 2147483648)]
   \<and> th_mean0 \<lparr>nfeat = 1, rows = concat (map rows
      [\<lparr>nfeat = 1, rows = replicate 2147483647 [0]\<rparr>, \<lparr>nfeat = 1, rows = [[1]]\<rparr>])\<rparr>
    = [1 / 2147483648]"
proof -
  have a: "running_mean (foldl RunningNorm_update_stats (BaseNorm_init 1 (1 / 100000))
      [\<lparr>nfeat = 1, rows = replicate 2147483647 [0]\<rparr>, \<lparr>nfeat = 1, rows = [[1]]\<rparr>])
    = [1 / of_int (int32 (int 2147483647 + 1))]"
    by (rule zero_rows_then_one) simp_all
  have b: "int32 (int 2147483647 + 1) = - 2147483648"
    by (simp add: int32_def)
  have "running_mean (foldl RunningNorm_update_stats (BaseNorm_init 1 (1 / 100000))
      [\<lparr>nfeat = 1, rows = replicate 2147483647 [0]\<rparr>, \<lparr>nfeat = 1, rows = [[1]]\<rparr>])
    = [- (1 / 2147483648)]"
    by (simp only: a b) simp
  moreover have "th_mean0 \<lparr>nfeat = 1, rows = concat (map rows
      [\<lparr>nfeat = 1, rows = replicate 2147483647 [0]\<rparr>, \<lparr>nfeat = 1, rows = [[1]]\<rparr>])\<rparr>
    = [1 / 2147483648]"
    using th_mean0_zero_rows_one [of 2147483647] by simp
  ultimately show ?thesis by blast
qed

subsection \<open>Seeds\<close>

text \<open>
  Claim C9. For every generator and every \<open>n \<ge> 1\<close>, \<^verbatim>\<open>make_seeds(rng, n)\<close> returns a list of
  exactly \<open>n\<close> seeds, each of them between \<open>0\<close> and \<open>2\<^sup>3\<^sup>1 - 2\<close> inclusive; without \<open>n\<close> it
  returns one such seed as a plain integer.
\<close>

theorem make_seeds_range:
  "(1 \<le> n \<longrightarrow>
      (\<exists>ss. make_seeds rng (Some n) = Inr (Seeds ss, rng\<lparr>consumed := consumed rng + nat n\<rparr>)
          \<and> int (length ss) = n \<and> (\<forall>s \<in> set ss. 0 \<le> s \<and> s \<le> 2 ^ 31 - 2)))
   \<and> (\<exists>s. make_seeds rng None = Inr (Seed s, rng\<lparr>consumed := consumed rng + 1\<rparr>)
          \<and> 0 \<le> s \<and> s \<le> 2 ^ 31 - 2)"
  by (auto simp: make_seeds_def integers_def)

theorem make_seeds_range_witness:
  "(1::int) \<le> 2
   \<and> make_seeds \<lparr>raw = (\<lambda>i. 3 * i + 2 ^ 31), consumed = 5\<rparr> (Some 2)
       = Inr (Seeds [16, 19], \<lparr>raw = (\<lambda>i. 3 * i + 2 ^ 31), consumed = 7\<rparr>)
   \<and> (0::int) \<le> 16 \<and> (19::int) \<le> 2 ^ 31 - 2
   \<and> make_seeds \<lparr>raw = (\<lambda>i. 3 * i + 2 ^ 31), consumed = 5\<rparr> None
       = Inr (Seed 16, \<lparr>raw = (\<lambda>i. 3 * i + 2 ^ 31), consumed = 6\<rparr>)"
  using make_seeds_range [of 2 "\<lparr>raw = (\<lambda>i. 3 * i + 2 ^ 31), consumed = 5\<rparr>"]
  by (simp add: make_seeds_def integers_def upt_conv_Cons)

subsection \<open>Norm of a vector given in chunks\<close>

lemma mag_ok_sabs: "mag_ok (sabs v)"
  by (simp add: mag_ok_def sabs_def split: scalar.splits)

lemma mag_ok_mpow: "mag_ok m \<Longrightarrow> mag_ok (mpow m p)"
  by (simp add: mag_ok_def mpow_def split: mag.splits)

lemma mag_ok_madd: "mag_ok a \<Longrightarrow> mag_ok b \<Longrightarrow> mag_ok (madd a b)"
  by (cases a; cases b) (simp_all add: mag_ok_def)

lemma mag_ok_msum: "\<forall>m \<in> set ms. mag_ok m \<Longrightarrow> mag_ok (msum ms)"
  by (induction ms) (simp_all add: msum_def mag_ok_madd, simp add: mag_ok_def)

lemma madd_zero_left: "madd (Mag 0) m = m"
  by (cases m) simp_all

lemma madd_assoc: "madd (madd a b) c = madd a (madd b c)"
  by (cases a; cases b; cases c) simp_all

lemma msum_Nil: "msum [] = Mag 0"
  by (simp add: msum_def)

lemma msum_Cons: "msum (m # ms) = madd m (msum ms)"
  by (simp add: msum_def)

lemma msum_append: "msum (xs @ ys) = madd (msum xs) (msum ys)"
  by (induction xs) (simp_all add: msum_Nil msum_Cons madd_zero_left madd_assoc)

lemma msum_concat: "msum (concat xss) = msum (map msum xss)"
  by (induction xss) (simp_all add: msum_Nil msum_Cons msum_append)

lemma th_norm_unfold:
  "p \<noteq> 0 \<Longrightarrow> th_norm t p = mpow (msum (map (\<lambda>v. mpow (sabs v) p) t)) (1 / p)"
  by (simp add: th_norm_def)

lemma sabs_scalar_of: "mag_ok m \<Longrightarrow> sabs (scalar_of m) = m"
  by (cases m) (simp_all add: sabs_def scalar_of_def mag_ok_def)

lemma mpow_inverse:
  assumes "mag_ok m" "p \<noteq> 0"
  shows "mpow (mpow m (1 / p)) p = m"
proof (cases m)
  case (Mag a)
  show ?thesis
  proof (cases "a = 0")
    case True
    then show ?thesis using Mag assms(2) by (simp add: mpow_def)
  next
    case False
    then have "0 < a" using assms(1) Mag by (simp add: mag_ok_def)
    then have "(a powr (1 / p)) powr p = a" "a powr (1 / p) \<noteq> 0"
      using assms(2) by (simp_all add: powr_powr)
    then show ?thesis using Mag assms(2) False by (simp add: mpow_def)
  qed
next
  case MagInf
  then show ?thesis using assms(2) by (simp add: mpow_def)
qed

lemma th_norm_pow:
  assumes "p \<noteq> 0"
  shows "mpow (sabs (scalar_of (th_norm t p))) p = msum (map (\<lambda>v. mpow (sabs v) p) t)"
proof -
  have ok: "mag_ok (msum (map (\<lambda>v. mpow (sabs v) p) t))"
    by (rule mag_ok_msum) (auto intro: mag_ok_mpow mag_ok_sabs)
  then have "mag_ok (th_norm t p)"
    using assms by (simp add: th_norm_def mag_ok_mpow)
  then have "sabs (scalar_of (th_norm t p)) = th_norm t p"
    by (rule sabs_scalar_of)
  then show ?thesis
    using assms ok by (simp add: th_norm_def mpow_inverse)
qed

text \<open>
  Claim C7. For every finite order \<open>p \<noteq> 0\<close> (in particular every \<open>p \<ge> 1\<close>) and every finite
  sequence of chunks, \<^verbatim>\<open>tensor_iter_norm\<close> returns the p-norm of the concatenation of the
  flattened chunks: the p-norm of the vector of the chunk norms is the p-norm of the
  concatenation.
\<close>

theorem tensor_iter_norm_concat:
  assumes "p \<noteq> 0"
  shows "tensor_iter_norm chunks p = Inr (th_norm (concat chunks) p)"
proof -
  let ?f = "\<lambda>v. mpow (sabs v) p"
  let ?norm_tensor = "map scalar_of (map (\<lambda>tensor. th_norm tensor p) chunks)"
  have a: "map ?f ?norm_tensor = map (\<lambda>c. msum (map ?f c)) chunks"
    using assms by (simp add: th_norm_pow)
  have b: "msum (map ?f (concat chunks)) = msum (map (\<lambda>c. msum (map ?f c)) chunks)"
    by (simp add: map_concat msum_concat comp_def)
  have "th_norm ?norm_tensor p = mpow (msum (map ?f ?norm_tensor)) (1 / p)"
    by (rule th_norm_unfold [OF assms])
  also have "\<dots> = mpow (msum (map (\<lambda>c. msum (map ?f c)) chunks)) (1 / p)"
    by (simp only: a)
  also have "\<dots> = mpow (msum (map ?f (concat chunks))) (1 / p)"
    by (simp only: b)
  also have "\<dots> = th_norm (concat chunks) p"
    by (rule th_norm_unfold [OF assms, symmetric])
  finally show ?thesis
    using assms by (simp add: tensor_iter_norm_def)
qed

lemma sqrt_25: "sqrt 25 = 5"
proof -
  have "sqrt (5\<^sup>2) = 5" by (simp del: power2_eq_square)
  then show ?thesis by simp
qed

theorem tensor_iter_norm_concat_witness:
  "(2::real) \<noteq> 0 \<and> tensor_iter_norm [[Num 3, Num 4]] 2 = Inr (Mag 5)"
  using tensor_iter_norm_concat [of 2 "[[Num 3, Num 4]]"]
  by (simp add: th_norm_def msum_def mpow_def sabs_def powr_half_sqrt sqrt_25)

subsection \<open>Nearest-neighbour distances\<close>

lemma concat_chunks_take:
  "concat (map (\<lambda>idx. take b (drop (idx * b) xs)) [0..<n]) = take (n * b) xs"
proof (induction n)
  case 0
  then show ?case by simp
next
  case (Suc n)
  have "take (n * b) xs @ take b (drop (n * b) xs) = take (n * b + b) xs"
    by (simp add: take_add)
  then show ?case using Suc by (simp add: add.commute)
qed

lemma concat_chunks:
  assumes "0 < b"
  shows "concat (map (\<lambda>idx. take b (drop (idx * b) xs)) [0..<length xs div b + 1]) = xs"
proof -
  have "length xs < (length xs div b + 1) * b"
    using assms by (metis Suc_eq_plus1 dividend_less_div_times mult.commute mult_Suc)
  then show ?thesis by (simp add: concat_chunks_take)
qed

lemma all_dists_direct:
  assumes "0 < b"
  shows "cat_dim1 (length qs)
           (map (\<lambda>idx. pairwise_distances qs (take b (drop (idx * b) rs)))
              [0..<length rs div b + 1])
         = pairwise_distances qs rs"
proof -
  let ?d = "\<lambda>q r. vector_norm2 (map2 (-) q r)"
  let ?idxs = "[0..<length rs div b + 1]"
  have "concat (map (\<lambda>idx. map (?d (qs ! i)) (take b (drop (idx * b) rs))) ?idxs)
      = map (?d (qs ! i)) rs" for i
  proof -
    have "concat (map (\<lambda>idx. map (?d (qs ! i)) (take b (drop (idx * b) rs))) ?idxs)
        = map (?d (qs ! i)) (concat (map (\<lambda>idx. take b (drop (idx * b) rs)) ?idxs))"
      by (simp add: map_concat comp_def)
    then show ?thesis by (simp only: concat_chunks [OF assms])
  qed
  then show ?thesis
    by (auto simp: cat_dim1_def pairwise_distances_def comp_def intro!: nth_equalityI)
qed

text \<open>
  Claim C5. For query rows and reference rows with the same feature shape and
  \<open>0 \<le> k < M\<close>, where \<open>M\<close> is the number of reference rows, the function returns for every
  query row the \<open>(k + 1)\<close>-th smallest Euclidean distance from that row to the reference
  rows: the distance to its \<open>(k + 1)\<close>-th nearest neighbour, which is the \<open>k\<close>-th when the
  nearest one (the query itself, if it is among the reference rows) is not counted.
  Processing the reference rows 500 at a time gives the same distances as computing all
  of them at once.
\<close>

theorem compute_state_entropy_kth:
  assumes "nfeat obs = nfeat all_obs" "0 \<le> k" "k < int (length (rows all_obs))"
  shows "compute_state_entropy obs all_obs k
       = Inr (map (\<lambda>q. kth_nearest_distance (nat k + 1) q (rows all_obs)) (rows obs))"
proof -
  have "cat_dim1 (length (rows obs))
           (map (\<lambda>idx. pairwise_distances (rows obs) (take 500 (drop (idx * 500) (rows all_obs))))
              [0..<length (rows all_obs) div 500 + 1])
         = pairwise_distances (rows obs) (rows all_obs)"
    by (rule all_dists_direct) simp
  then show ?thesis
    using assms unfolding compute_state_entropy_def Let_def
    by (simp add: kthvalue_def pairwise_distances_def comp_def kth_nearest_distance_def)
qed

theorem compute_state_entropy_kth_witness:
  "nfeat \<lparr>nfeat = 1, rows = [[0], [3]]\<rparr> = nfeat \<lparr>nfeat = 1, rows = [[1], [2]]\<rparr>
   \<and> (0::int) \<le> 0 \<and> (0::int) < int (length (rows \<lparr>nfeat = 1, rows = [[1], [2]]\<rparr>))
   \<and> compute_state_entropy \<lparr>nfeat = 1, rows = [[0], [3]]\<rparr> \<lparr>nfeat = 1, rows = [[1], [2]]\<rparr> 0
       = Inr [1, 1]"
  using compute_state_entropy_kth
      [of "\<lparr>nfeat = 1, rows = [[0], [3]]\<rparr>" "\<lparr>nfeat = 1, rows = [[1], [2]]\<rparr>" 0]
  by (simp add: kth_nearest_distance_def vector_norm2_def)

text \<open>
  With one query row \<open>[0]\<close>, reference rows \<open>[1]\<close> and \<open>[2]\<close> and \<open>k = 1\<close> the function
  returns 2, the distance to the farther row, while the nearest neighbour of the query is
  at distance 1.
\<close>

theorem compute_state_entropy_counterexample:
  "compute_state_entropy \<lparr>nfeat = 1, rows = [[0]]\<rparr> \<lparr>nfeat = 1, rows = [[1], [2]]\<rparr> 1 = Inr [2]
   \<and> kth_nearest_distance 1 [0] [[1], [2]] = 1"
  by (simp add: compute_state_entropy_def Let_def kthvalue_def pairwise_distances_def
      cat_dim1_def vector_norm2_def kth_nearest_distance_def)

subsection \<open>Optimal rounding\<close>











lemma sum_shortfall:
  "sum_list (shortfall_of x) = sum_list x - of_int (sum_list (map floor x))"
  by (induction x) (simp_all add: shortfall_of_def)

lemma sum_shortfall_bounds:
  "0 \<le> sum_list (shortfall_of x)" "sum_list (shortfall_of x) \<le> real (length x)"
proof -
  show "0 \<le> sum_list (shortfall_of x)"
    by (induction x) (simp_all add: shortfall_of_def)
  show "sum_list (shortfall_of x) \<le> real (length x)"
  proof (induction x)
    case Nil
    then show ?case by (simp add: shortfall_of_def)
  next
    case (Cons a x)
    have "a - of_int \<lfloor>a\<rfloor> \<le> 1" by linarith
    then show ?case using Cons by (simp add: shortfall_of_def)
  qed
qed

lemma total_shortfall:
  assumes "sum_list x \<in> \<int>"
  obtains k where "sum_list (shortfall_of x) = of_int k" "0 \<le> k" "k \<le> int (length x)"
    "np_round (sum_list (shortfall_of x)) = k"
proof -
  obtain z where z: "sum_list x = of_int z" using assms by (auto elim: Ints_cases)
  define k where "k = z - sum_list (map floor x)"
  have eq: "sum_list (shortfall_of x) = of_int k"
    by (simp add: sum_shortfall z k_def)
  have "0 \<le> (of_int k :: real)" "(of_int k :: real) \<le> of_int (int (length x))"
    using sum_shortfall_bounds [of x] eq by simp_all
  then have "0 \<le> k" "k \<le> int (length x)"
    by (simp_all only: of_int_0_le_iff of_int_le_iff)
  moreover have "np_round (sum_list (shortfall_of x)) = k"
    by (simp only: eq np_round_of_int)
  ultimately show thesis using eq that by blast
qed


















end
